theory Spec2Isabelle
  imports Complex_Main
begin

section \<open>Strings and numbers of the host language\<close>

text \<open>
  A string of the source is a sequence of UTF-16 code units; the model uses \<open>string\<close>
  and reads each \<open>char\<close> as the code unit of the same number (0 to 255), which is what
  \<open>charCodeAt\<close> returns for these characters.

  \<open>Array.prototype.join\<close>: the elements separated by the separator.
\<close>

fun join :: "string \<Rightarrow> string list \<Rightarrow> string" where
  "join sep [] = []"
| "join sep [x] = x"
| "join sep (x # y # ys) = x @ sep @ join sep (y # ys)"

text \<open>\<open>Number.prototype.toString(radix)\<close> on a non-negative integer, for radix 36 and 10.\<close>

definition digit_char :: "nat \<Rightarrow> char" where
  "digit_char d = ''0123456789abcdefghijklmnopqrstuvwxyz'' ! d"

fun to_radix :: "nat \<Rightarrow> nat \<Rightarrow> string" where
  "to_radix r n =
     (if r < 2 \<or> n < r then [digit_char n]
      else to_radix r (n div r) @ [digit_char (n mod r)])"

declare to_radix.simps [simp del]

definition int_to_string :: "int \<Rightarrow> string" where
  "int_to_string i = (if i < 0 then ''-'' @ to_radix 10 (nat (- i)) else to_radix 10 (nat i))"

section \<open>Cache keys (cache.ts)\<close>

text \<open>
  An optional string parameter is \<open>None\<close> when the caller passes \<open>undefined\<close>. The tests
  \<open>if (presetSlug)\<close> and \<open>if (settingsHash)\<close> are truthiness tests: both \<open>undefined\<close> and
  the empty string fail them.
\<close>

definition push_if_truthy :: "string list \<Rightarrow> string option \<Rightarrow> string list" where
  "push_if_truthy parts s =
     (case s of None \<Rightarrow> parts | Some t \<Rightarrow> if t \<noteq> [] then parts @ [t] else parts)"

definition generateCacheKey :: "string \<Rightarrow> string option \<Rightarrow> string option \<Rightarrow> string" where
  "generateCacheKey sectionSlug presetSlug settingsHash =
     (let parts = [sectionSlug];
          parts = push_if_truthy parts presetSlug;
          parts = push_if_truthy parts settingsHash
      in join '':'' parts)"

subsection \<open>JSON.stringify on a settings object\<close>

text \<open>
  The values a settings object carries. A \<open>JObj\<close> lists the own properties of the object
  in the order \<open>JSON.stringify\<close> enumerates them, which for keys that are not array
  indices is the order of insertion. Numbers are the integers (of magnitude below
  \<open>10^21\<close>, which print in plain decimal).
\<close>

datatype json =
    JNull
  | JBool bool
  | JNum int
  | JStr string
  | JArr "json list"
  | JObj "(string \<times> json) list"

definition hex4 :: "nat \<Rightarrow> string" where
  "hex4 n = [digit_char (n div 4096 mod 16), digit_char (n div 256 mod 16),
             digit_char (n div 16 mod 16), digit_char (n mod 16)]"

definition quote_char :: "char \<Rightarrow> string" where
  "quote_char c =
     (if c = CHR 0x22 then [CHR 0x5C, CHR 0x22]
      else if c = CHR 0x5C then [CHR 0x5C, CHR 0x5C]
      else if c = CHR 0x08 then [CHR 0x5C, CHR ''b'']
      else if c = CHR 0x0C then [CHR 0x5C, CHR ''f'']
      else if c = CHR 0x0A then [CHR 0x5C, CHR ''n'']
      else if c = CHR 0x0D then [CHR 0x5C, CHR ''r'']
      else if c = CHR 0x09 then [CHR 0x5C, CHR ''t'']
      else if (of_char c :: nat) < 32 then [CHR 0x5C, CHR ''u''] @ hex4 (of_char c)
      else [c])"

definition quote_json_string :: "string \<Rightarrow> string" where
  "quote_json_string s = [CHR 0x22] @ concat (map quote_char s) @ [CHR 0x22]"

fun stringify :: "json \<Rightarrow> string" where
  "stringify JNull = ''null''"
| "stringify (JBool b) = (if b then ''true'' else ''false'')"
| "stringify (JNum i) = int_to_string i"
| "stringify (JStr s) = quote_json_string s"
| "stringify (JArr xs) = ''['' @ join '','' (map stringify xs) @ '']''"
| "stringify (JObj kvs) =
     ''{'' @ join '','' (map (\<lambda>(k, v). quote_json_string k @ '':'' @ stringify v) kvs) @ ''}''"

subsection \<open>hashSettings\<close>

text \<open>
  \<open>hash << 5\<close> and \<open>hash & hash\<close> convert their operand to a signed 32-bit integer;
  the subtraction and the addition between them are exact.
\<close>

definition to_int32 :: "int \<Rightarrow> int" where
  "to_int32 x = (x + 2 ^ 31) mod 2 ^ 32 - 2 ^ 31"

definition shl32 :: "int \<Rightarrow> nat \<Rightarrow> int" where
  "shl32 x n = to_int32 (to_int32 x * 2 ^ n)"

definition hash_step :: "int \<Rightarrow> char \<Rightarrow> int" where
  "hash_step hash c =
     (let char = of_char c;
          hash = (shl32 hash 5 - hash) + char
      in to_int32 hash)"

definition hash_string :: "string \<Rightarrow> int" where
  "hash_string str = foldl hash_step 0 str"

definition hashSettings :: "(string \<times> json) list \<Rightarrow> string" where
  "hashSettings settings = to_radix 36 (nat \<bar>hash_string (stringify (JObj settings))\<bar>)"

text \<open>The key \<open>renderSection\<close> computes for a request.\<close>

definition request_cache_key ::
  "string \<Rightarrow> string option \<Rightarrow> (string \<times> json) list option \<Rightarrow> string" where
  "request_cache_key sectionSlug presetSlug customSettings =
     (let settingsHash = (case customSettings of None \<Rightarrow> None | Some s \<Rightarrow> Some (hashSettings s))
      in generateCacheKey sectionSlug presetSlug settingsHash)"

section \<open>Filters of the template engine (engine.ts)\<close>

subsection \<open>Money filters\<close>










subsection \<open>image_url\<close>






section \<open>The mock context generator (mock-generator.ts)\<close>

subsection \<open>Objects and the store\<close>

text \<open>
  An object is the list of its own properties in their order. The settings objects of
  the blocks of a schema preset are shared between the schema and the contexts built
  from it, so they live in a store and are named by their address (the index in the
  store); a new object gets the next free address.

  \<open>key in object\<close> also holds for the properties inherited from \<open>Object.prototype\<close>.
  \<open>object[key] = value\<close> replaces the value of an own property and otherwise adds the
  property at the end (the keys are taken not to be array indices).
\<close>

type_synonym obj = "(string \<times> json) list"
type_synonym addr = nat
type_synonym store = "obj list"

definition object_prototype_keys :: "string list" where
  "object_prototype_keys =
     [''constructor'', ''__defineGetter__'', ''__defineSetter__'', ''hasOwnProperty'',
      ''__lookupGetter__'', ''__lookupSetter__'', ''isPrototypeOf'', ''propertyIsEnumerable'',
      ''toString'', ''valueOf'', ''__proto__'', ''toLocaleString'']"

definition has_property :: "obj \<Rightarrow> string \<Rightarrow> bool" where
  "has_property ob k = (k \<in> set (map fst ob) \<or> k \<in> set object_prototype_keys)"

fun set_property :: "obj \<Rightarrow> string \<Rightarrow> json \<Rightarrow> obj" where
  "set_property [] k v = [(k, v)]"
| "set_property ((k', v') # rest) k v =
     (if k' = k then (k, v) # rest else (k', v') # set_property rest k v)"

definition load :: "store \<Rightarrow> addr \<Rightarrow> obj" where
  "load \<sigma> a = (if a < length \<sigma> then \<sigma> ! a else [])"

definition alloc :: "store \<Rightarrow> obj \<Rightarrow> addr \<times> store" where
  "alloc \<sigma> ob = (length \<sigma>, \<sigma> @ [ob])"

subsection \<open>The schema of a section (db/schema.ts)\<close>

record SectionSetting =
  setting_id :: string
  setting_type :: string
  label :: string
  setting_default :: "json option"
  info :: "string option"

record SectionBlock =
  block_type :: string
  block_name :: string
  limit :: "int option"
  block_settings :: "SectionSetting list option"

text \<open>
  \<open>presets\<close> is declared \<open>unknown[]\<close>; \<open>generateMockBlocks\<close> reads its first element as an
  object with an optional list \<open>blocks\<close> of \<open>{type, settings?}\<close>, where \<open>settings\<close> is an
  object of the store.
\<close>

record PresetBlock =
  pb_type :: string
  pb_settings :: "addr option"

record SchemaPreset =
  preset_name :: string
  preset_blocks :: "PresetBlock list option"

record SectionData =
  name :: string
  slug :: string
  description :: "string option"
  category :: string
  settings :: "SectionSetting list"
  blocks :: "SectionBlock list"
  maxBlocks :: int
  presets :: "SchemaPreset list"

record PresetColors =
  primary :: string
  secondary :: string
  accent :: string
  background :: string
  background_secondary :: string
  text_color :: string
  text_secondary :: string

record PresetTypography =
  heading_font :: string
  body_font :: string
  heading_scale :: int
  body_scale :: int

record StylePreset =
  colors :: "PresetColors option"
  typography :: "PresetTypography option"

subsection \<open>Default values\<close>

text \<open>
  \<open>setting.default !== undefined\<close> holds for every default the schema gives, \<open>null\<close>
  included. The table of defaults is looked up by the type of the setting (a type that
  names a property of \<open>Object.prototype\<close> is outside the model); a missing or \<open>null\<close>
  entry gives \<open>null\<close>.
\<close>

definition typeDefaults :: "(string \<times> json) list" where
  "typeDefaults =
     [(''text'', JStr ''Sample text''),
      (''textarea'', JStr ''Sample paragraph text with more details about this section.''),
      (''richtext'', JStr ''<p>Sample rich text content with <strong>formatting</strong>.</p>''),
      (''html'', JStr (''<div class='' @ [CHR 0x22] @ ''custom-html'' @ [CHR 0x22]
                       @ ''>Custom HTML content</div>'')),
      (''image_picker'', JNull),
      (''video'', JNull),
      (''video_url'', JNull),
      (''url'', JStr ''#''),
      (''checkbox'', JBool False),
      (''range'', JNum 50),
      (''number'', JNum 1),
      (''select'', JNull),
      (''radio'', JNull),
      (''color'', JStr ''#000000''),
      (''color_background'', JStr ''rgba(0,0,0,0)''),
      (''font_picker'', JStr ''sans-serif''),
      (''collection'', JNull),
      (''collection_list'', JArr []),
      (''product'', JNull),
      (''product_list'', JArr []),
      (''blog'', JNull),
      (''article'', JNull),
      (''page'', JNull),
      (''link_list'', JNull),
      (''header'', JNull),
      (''paragraph'', JNull)]"

definition getDefaultValue :: "SectionSetting \<Rightarrow> json" where
  "getDefaultValue setting =
     (case setting_default setting of
        Some d \<Rightarrow> d
      | None \<Rightarrow> (case map_of typeDefaults (setting_type setting) of Some v \<Rightarrow> v | None \<Rightarrow> JNull))"

fun extractSettingsDefaults_loop :: "SectionSetting list \<Rightarrow> obj \<Rightarrow> obj" where
  "extractSettingsDefaults_loop [] result = result"
| "extractSettingsDefaults_loop (setting # rest) result =
     (if setting_type setting = ''header'' \<or> setting_type setting = ''paragraph''
      then extractSettingsDefaults_loop rest result
      else extractSettingsDefaults_loop rest
             (set_property result (setting_id setting) (getDefaultValue setting)))"

definition extractSettingsDefaults :: "SectionSetting list \<Rightarrow> obj" where
  "extractSettingsDefaults sts = extractSettingsDefaults_loop sts []"

subsection \<open>Blocks\<close>

record MockBlockContext =
  mb_id :: string
  mb_type :: string
  mb_settings :: addr
  shopify_attributes :: string

definition shopify_attributes_of :: "nat \<Rightarrow> string \<Rightarrow> string" where
  "shopify_attributes_of index ty =
     ''data-shopify-editor-block='' @ [CHR 0x27] @ ''{'' @ [CHR 0x22] @ ''id'' @ [CHR 0x22] @ '':''
       @ [CHR 0x22] @ ''block-'' @ to_radix 10 index @ [CHR 0x22] @ '','' @ [CHR 0x22] @ ''type''
       @ [CHR 0x22] @ '':'' @ [CHR 0x22] @ ty @ [CHR 0x22] @ ''}'' @ [CHR 0x27]"

text \<open>
  The loop of the preset branch: a setting of the block type that is not yet \<open>in\<close> the
  settings object of the preset block is written into that object.
\<close>

fun merge_defaults :: "SectionSetting list \<Rightarrow> obj \<Rightarrow> obj" where
  "merge_defaults [] blockSettings = blockSettings"
| "merge_defaults (setting # rest) blockSettings =
     merge_defaults rest
       (if \<not> has_property blockSettings (setting_id setting)
        then set_property blockSettings (setting_id setting) (getDefaultValue setting)
        else blockSettings)"

fun preset_blocks_map ::
  "SectionBlock list \<Rightarrow> PresetBlock list \<Rightarrow> nat \<Rightarrow> store \<Rightarrow> MockBlockContext list \<times> store" where
  "preset_blocks_map blockTypes [] index \<sigma> = ([], \<sigma>)"
| "preset_blocks_map blockTypes (block # rest) index \<sigma> =
     (let blockType = find (\<lambda>bt. block_type bt = pb_type block) blockTypes;
          (blockSettings, \<sigma>1) =
             (case pb_settings block of Some a \<Rightarrow> (a, \<sigma>) | None \<Rightarrow> alloc \<sigma> []);
          \<sigma>2 = (case blockType of
                  None \<Rightarrow> \<sigma>1
                | Some bt \<Rightarrow>
                    (case block_settings bt of
                       None \<Rightarrow> \<sigma>1
                     | Some sts \<Rightarrow> \<sigma>1[blockSettings := merge_defaults sts (load \<sigma>1 blockSettings)]));
          b = \<lparr>mb_id = ''block-'' @ to_radix 10 index, mb_type = pb_type block,
               mb_settings = blockSettings,
               shopify_attributes = shopify_attributes_of index (pb_type block)\<rparr>;
          (bs, \<sigma>3) = preset_blocks_map blockTypes rest (index + 1) \<sigma>2
      in (b # bs, \<sigma>3))"

text \<open>The other branch: a new object for each of the first three block types.\<close>

fun assign_defaults :: "SectionSetting list \<Rightarrow> obj \<Rightarrow> obj" where
  "assign_defaults [] blockSettings = blockSettings"
| "assign_defaults (setting # rest) blockSettings =
     assign_defaults rest (set_property blockSettings (setting_id setting) (getDefaultValue setting))"

fun sample_blocks_map ::
  "SectionBlock list \<Rightarrow> nat \<Rightarrow> store \<Rightarrow> MockBlockContext list \<times> store" where
  "sample_blocks_map [] index \<sigma> = ([], \<sigma>)"
| "sample_blocks_map (blockType # rest) index \<sigma> =
     (let filled = (case block_settings blockType of
                      None \<Rightarrow> []
                    | Some sts \<Rightarrow> assign_defaults sts []);
          (blockSettings, \<sigma>1) = alloc \<sigma> filled;
          b = \<lparr>mb_id = ''block-'' @ to_radix 10 index, mb_type = block_type blockType,
               mb_settings = blockSettings,
               shopify_attributes = shopify_attributes_of index (block_type blockType)\<rparr>;
          (bs, \<sigma>2) = sample_blocks_map rest (index + 1) \<sigma>1
      in (b # bs, \<sigma>2))"

definition generateMockBlocks ::
  "SectionBlock list \<Rightarrow> SchemaPreset list \<Rightarrow> store \<Rightarrow> MockBlockContext list \<times> store" where
  "generateMockBlocks blockTypes prs \<sigma> =
     (case prs of
        [] \<Rightarrow> sample_blocks_map (take 3 blockTypes) 0 \<sigma>
      | preset # _ \<Rightarrow>
          (case preset_blocks preset of
             Some bs \<Rightarrow> preset_blocks_map blockTypes bs 0 \<sigma>
           | None \<Rightarrow> sample_blocks_map (take 3 blockTypes) 0 \<sigma>))"

subsection \<open>Theme settings and mock entities\<close>

definition theme_defaults :: obj where
  "theme_defaults =
     [(''color_primary'', JStr ''#2563eb''),
      (''color_secondary'', JStr ''#64748b''),
      (''color_accent'', JStr ''#f59e0b''),
      (''color_background'', JStr ''#ffffff''),
      (''color_background_secondary'', JStr ''#f8fafc''),
      (''color_text'', JStr ''#1e293b''),
      (''color_text_secondary'', JStr ''#64748b''),
      (''typography_heading_font'', JStr ''Inter''),
      (''typography_body_font'', JStr ''Inter''),
      (''typography_heading_scale'', JNum 100),
      (''typography_body_scale'', JNum 100),
      (''button_border_radius'', JNum 8),
      (''button_padding_vertical'', JNum 12),
      (''button_padding_horizontal'', JNum 24),
      (''page_width'', JNum 1200),
      (''spacing_sections'', JNum 48),
      (''social_twitter_link'', JStr []),
      (''social_facebook_link'', JStr []),
      (''social_instagram_link'', JStr [])]"

definition apply_colors :: "PresetColors \<Rightarrow> obj \<Rightarrow> obj" where
  "apply_colors c defaults =
     (let defaults = set_property defaults ''color_primary'' (JStr (primary c));
          defaults = set_property defaults ''color_secondary'' (JStr (secondary c));
          defaults = set_property defaults ''color_accent'' (JStr (accent c));
          defaults = set_property defaults ''color_background'' (JStr (background c));
          defaults = set_property defaults ''color_background_secondary''
                       (JStr (background_secondary c));
          defaults = set_property defaults ''color_text'' (JStr (text_color c));
          defaults = set_property defaults ''color_text_secondary'' (JStr (text_secondary c))
      in defaults)"

definition apply_typography :: "PresetTypography \<Rightarrow> obj \<Rightarrow> obj" where
  "apply_typography t defaults =
     (let defaults = set_property defaults ''typography_heading_font'' (JStr (heading_font t));
          defaults = set_property defaults ''typography_body_font'' (JStr (body_font t));
          defaults = set_property defaults ''typography_heading_scale'' (JNum (heading_scale t));
          defaults = set_property defaults ''typography_body_scale'' (JNum (body_scale t))
      in defaults)"

definition generateThemeSettings :: "StylePreset option \<Rightarrow> obj" where
  "generateThemeSettings preset =
     (let defaults = theme_defaults;
          defaults = (case preset of
                        None \<Rightarrow> defaults
                      | Some p \<Rightarrow> (case colors p of None \<Rightarrow> defaults
                                   | Some c \<Rightarrow> apply_colors c defaults));
          defaults = (case preset of
                        None \<Rightarrow> defaults
                      | Some p \<Rightarrow> (case typography p of None \<Rightarrow> defaults
                                   | Some t \<Rightarrow> apply_typography t defaults))
      in defaults)"

text \<open>
  \<open>generateMockProduct(index)\<close> and \<open>generateMockCollection(index)\<close> build a literal that
  depends on the index alone; the model names the result by the index.
\<close>

datatype mock_product = MockProduct nat
datatype mock_collection = MockCollection nat

record MockEntities =
  product :: "mock_product option"
  collection :: "mock_collection option"
  collections :: "mock_collection list option"

definition generateMockEntities :: "string \<Rightarrow> MockEntities" where
  "generateMockEntities cat =
     (let result = \<lparr>product = None, collection = None, collections = None\<rparr>
      in if cat = ''product'' \<or> cat = ''main-product''
         then result\<lparr>product := Some (MockProduct 0)\<rparr>
         else if cat = ''collection'' \<or> cat = ''main-collection''
         then result\<lparr>collection := Some (MockCollection 0)\<rparr>
         else if cat = ''featured-collection'' \<or> cat = ''collection-list''
         then result\<lparr>collections := Some (map MockCollection [0, 1, 2, 3]),
                      collection := Some (MockCollection 0)\<rparr>
         else if cat = ''hero'' \<or> cat = ''slideshow'' \<or> cat = ''image-banner''
         then result
         else result\<lparr>product := Some (MockProduct 0), collection := Some (MockCollection 0)\<rparr>)"

subsection \<open>generateMockDataFromSchema\<close>

text \<open>
  The context, without the fields that are literals of the source and depend on no input
  (shop, request, template, cart, customer, page titles, link lists, routes and the two
  content placeholders).
\<close>

record MockSectionContext =
  section_id :: string
  section_settings :: obj
  section_blocks :: "MockBlockContext list"

record RenderContext =
  theme_settings :: obj
  section_context :: MockSectionContext
  entities :: MockEntities

definition generateMockDataFromSchema ::
  "SectionData \<Rightarrow> StylePreset option \<Rightarrow> store \<Rightarrow> RenderContext \<times> store" where
  "generateMockDataFromSchema sectionSchema preset \<sigma> =
     (let sectionSettings = extractSettingsDefaults (settings sectionSchema);
          (blks, \<sigma>') = generateMockBlocks (blocks sectionSchema) (presets sectionSchema) \<sigma>;
          themeSettings = generateThemeSettings preset;
          mockEntities = generateMockEntities (category sectionSchema)
      in (\<lparr>theme_settings = themeSettings,
           section_context = \<lparr>section_id = slug sectionSchema, section_settings = sectionSettings,
                       section_blocks = blks\<rparr>,
           entities = mockEntities\<rparr>, \<sigma>'))"

text \<open>The objects of a store that a call leaves as they were: all those it held before.\<close>

definition unchanged :: "store \<Rightarrow> store \<Rightarrow> bool" where
  "unchanged \<sigma> \<sigma>' = (take (length \<sigma>) \<sigma>' = \<sigma>)"

text \<open>
  A schema as the content collection holds it: one block type \<open>slide\<close> with a text
  setting \<open>title\<close>, and a first preset with one \<open>slide\<close> block whose settings object
  (at address 0 of the store) is empty.
\<close>

definition slideshow_schema :: SectionData where
  "slideshow_schema =
     \<lparr>name = ''Slideshow'', slug = ''slideshow'', description = None, category = ''slideshow'',
      settings = [],
      blocks = [\<lparr>block_type = ''slide'', block_name = ''Slide'', limit = None,
                 block_settings = Some [\<lparr>setting_id = ''title'', setting_type = ''text'',
                                          label = ''Title'', setting_default = None, info = None\<rparr>]\<rparr>],
      maxBlocks = 5,
      presets = [\<lparr>preset_name = ''Default'',
                  preset_blocks = Some [\<lparr>pb_type = ''slide'', pb_settings = Some 0\<rparr>]\<rparr>]\<rparr>"

section \<open>The render cache (cache.ts)\<close>

subsection \<open>Time stamps and their text\<close>

text \<open>
  The clock counts milliseconds since 1970-01-01T00:00:00Z, as \<open>Date.now()\<close> does.
  \<open>new Date(ms).toISOString()\<close> prints \<open>YYYY-MM-DDTHH:mm:ss.sssZ\<close>; SQLite's
  \<open>datetime('now')\<close> prints the same instant as \<open>YYYY-MM-DD HH:MM:SS\<close>. Both are UTC.
  The date of a day number is computed in the proleptic Gregorian calendar: the era of
  400 years, the day and the year within the era, the day of the year counted from the
  first of March, and from it the month and the day.
\<close>

definition civil_of_month :: "nat \<Rightarrow> nat \<Rightarrow> nat \<Rightarrow> nat \<Rightarrow> nat \<times> nat \<times> nat" where
  "civil_of_month era yoe doy mp =
     (let d = doy - (153 * mp + 2) div 5 + 1;
          m = (if mp < 10 then mp + 3 else mp - 9);
          y = yoe + era * 400 + (if m \<le> 2 then 1 else 0)
      in (y, m, d))"

definition civil_of_year :: "nat \<Rightarrow> nat \<Rightarrow> nat \<Rightarrow> nat \<times> nat \<times> nat" where
  "civil_of_year era doe yoe =
     (let doy = doe - (365 * yoe + yoe div 4 - yoe div 100)
      in civil_of_month era yoe doy ((5 * doy + 2) div 153))"

definition civil_of_era :: "nat \<Rightarrow> nat \<Rightarrow> nat \<times> nat \<times> nat" where
  "civil_of_era era doe =
     civil_of_year era doe ((doe - doe div 1460 + doe div 36524 - doe div 146096) div 365)"

definition civil_from_days :: "nat \<Rightarrow> nat \<times> nat \<times> nat" where
  "civil_from_days days =
     (let z = days + 719468
      in civil_of_era (z div 146097) (z mod 146097))"

definition pad :: "nat \<Rightarrow> nat \<Rightarrow> string" where
  "pad n x = replicate (n - length (to_radix 10 x)) CHR ''0'' @ to_radix 10 x"

definition date_text :: "nat \<Rightarrow> string" where
  "date_text ms =
     (case civil_from_days (ms div 86400000) of
        (y, m, d) \<Rightarrow> pad 4 y @ ''-'' @ pad 2 m @ ''-'' @ pad 2 d)"

definition time_text :: "nat \<Rightarrow> string" where
  "time_text ms =
     (let r = ms mod 86400000
      in pad 2 (r div 3600000) @ '':'' @ pad 2 (r div 60000 mod 60) @ '':''
           @ pad 2 (r div 1000 mod 60))"

definition toISOString :: "nat \<Rightarrow> string" where
  "toISOString ms = date_text ms @ ''T'' @ time_text ms @ ''.'' @ pad 3 (ms mod 1000) @ ''Z''"

definition sqlite_datetime :: "nat \<Rightarrow> string" where
  "sqlite_datetime ms = date_text ms @ '' '' @ time_text ms"

text \<open>
  \<open>expires_at\<close> is a TEXT column and \<open>datetime('now')\<close> is a text value: SQLite compares
  them byte by byte, a proper prefix being smaller.
\<close>

fun text_less :: "string \<Rightarrow> string \<Rightarrow> bool" where
  "text_less [] [] = False"
| "text_less [] (y # ys) = True"
| "text_less (x # xs) [] = False"
| "text_less (x # xs) (y # ys) =
     ((of_char x :: nat) < of_char y \<or> (x = y \<and> text_less xs ys))"

subsection \<open>The table and the calls to the database\<close>

text \<open>
  A value that a \<open>throw\<close> or a rejected promise carries: an \<open>Error\<close> object with its
  message, or any other value.
\<close>

datatype thrown = Error string | NonError

record RenderedPreviewRow =
  cache_key :: string
  section_slug :: string
  preset_slug :: "string option"
  row_html :: string
  row_css :: "string option"
  render_time_ms :: "nat option"
  created_at :: string
  expires_at :: string

text \<open>
  The world a render runs in: the rows of the table \<open>rendered_previews\<close> (the column
  \<open>cache_key\<close> is UNIQUE), the outcome of the next calls to the database (\<open>Some e\<close>: the
  call fails with \<open>e\<close>; when the list is used up the calls succeed), the clock, which
  stands still during one call of the model, and the store with the objects of the
  content collection.
\<close>

record world =
  rows :: "RenderedPreviewRow list"
  faults :: "thrown option list"
  clock :: nat
  heap :: store

definition d1_call :: "world \<Rightarrow> thrown option \<times> world" where
  "d1_call w = (case faults w of [] \<Rightarrow> (None, w) | f # fs \<Rightarrow> (f, w\<lparr>faults := fs\<rparr>))"

record CacheEntry =
  entry_html :: string
  entry_css :: "string option"
  entry_renderTimeMs :: nat

text \<open>
  \<open>SELECT html, css, render_time_ms FROM rendered_previews
  WHERE cache_key = ? AND expires_at > datetime('now')\<close>, first row.
\<close>

definition select_preview ::
  "string \<Rightarrow> world \<Rightarrow> (thrown + RenderedPreviewRow option) \<times> world" where
  "select_preview cacheKey w =
     (case d1_call w of
        (Some e, w') \<Rightarrow> (Inl e, w')
      | (None, w') \<Rightarrow>
          (Inr (find (\<lambda>r. cache_key r = cacheKey
                          \<and> text_less (sqlite_datetime (clock w')) (expires_at r)) (rows w')),
           w'))"

definition getCachedPreview ::
  "string \<Rightarrow> world \<Rightarrow> (thrown + CacheEntry option) \<times> world" where
  "getCachedPreview cacheKey w =
     (case select_preview cacheKey w of
        (Inl error, w') \<Rightarrow> (Inr None, w')
      | (Inr None, w') \<Rightarrow> (Inr None, w')
      | (Inr (Some result), w') \<Rightarrow>
          (Inr (Some \<lparr>entry_html = row_html result, entry_css = row_css result,
                      entry_renderTimeMs =
                        (case render_time_ms result of None \<Rightarrow> 0 | Some t \<Rightarrow> t)\<rparr>),
           w'))"

text \<open>\<open>INSERT OR REPLACE INTO rendered_previews ...\<close>: a row with the same key is replaced.\<close>

definition insert_or_replace :: "RenderedPreviewRow \<Rightarrow> world \<Rightarrow> (thrown + unit) \<times> world" where
  "insert_or_replace row w =
     (case d1_call w of
        (Some e, w') \<Rightarrow> (Inl e, w')
      | (None, w') \<Rightarrow>
          (Inr (), w'\<lparr>rows := filter (\<lambda>r. cache_key r \<noteq> cache_key row) (rows w') @ [row]\<rparr>))"

definition setCachedPreview ::
  "string \<Rightarrow> string \<Rightarrow> string option \<Rightarrow> CacheEntry \<Rightarrow> nat \<Rightarrow> world \<Rightarrow> (thrown + unit) \<times> world" where
  "setCachedPreview cacheKey sectionSlug presetSlug entry ttlMinutes w =
     (let timestamp = toISOString (clock w);
          expires = toISOString (clock w + ttlMinutes * 60 * 1000)
      in case insert_or_replace
                \<lparr>cache_key = cacheKey, section_slug = sectionSlug, preset_slug = presetSlug,
                 row_html = entry_html entry, row_css = entry_css entry,
                 render_time_ms = Some (entry_renderTimeMs entry),
                 created_at = timestamp, expires_at = expires\<rparr> w of
           (Inl error, w') \<Rightarrow> (Inr (), w')
         | (Inr u, w') \<Rightarrow> (Inr (), w'))"

text \<open>\<open>DELETE FROM rendered_previews WHERE ...\<close>, with the number of rows it removed.\<close>

definition delete_where ::
  "(RenderedPreviewRow \<Rightarrow> bool) \<Rightarrow> world \<Rightarrow> (thrown + nat) \<times> world" where
  "delete_where cond w =
     (case d1_call w of
        (Some e, w') \<Rightarrow> (Inl e, w')
      | (None, w') \<Rightarrow>
          (Inr (length (filter cond (rows w'))),
           w'\<lparr>rows := filter (\<lambda>r. \<not> cond r) (rows w')\<rparr>))"

definition invalidateSectionCache :: "string \<Rightarrow> world \<Rightarrow> (thrown + nat) \<times> world" where
  "invalidateSectionCache sectionSlug w =
     (case delete_where (\<lambda>r. section_slug r = sectionSlug) w of
        (Inl error, w') \<Rightarrow> (Inr 0, w')
      | (Inr changes, w') \<Rightarrow> (Inr changes, w'))"

definition invalidatePresetCache :: "string \<Rightarrow> world \<Rightarrow> (thrown + nat) \<times> world" where
  "invalidatePresetCache presetSlug w =
     (case delete_where (\<lambda>r. preset_slug r = Some presetSlug) w of
        (Inl error, w') \<Rightarrow> (Inr 0, w')
      | (Inr changes, w') \<Rightarrow> (Inr changes, w'))"

definition cleanupExpiredCache :: "world \<Rightarrow> (thrown + nat) \<times> world" where
  "cleanupExpiredCache w =
     (case delete_where (\<lambda>r. text_less (expires_at r) (sqlite_datetime (clock w))) w of
        (Inl error, w') \<Rightarrow> (Inr 0, w')
      | (Inr changes, w') \<Rightarrow> (Inr changes, w'))"

section \<open>The render pipeline (renderer.ts)\<close>

record RenderOptions =
  sectionSlug :: string
  presetSlug :: "string option"
  customSettings :: "obj option"
  skipCache :: bool

record RenderResult =
  html :: string
  css :: string
  errors :: "string list"
  renderTimeMs :: nat
  cached :: bool

text \<open>
  What a render reads besides the database: the content collection \<open>sections\<close> (loading
  it may fail), the preset and template files by slug, and the template engine with its
  registered tags and filters, which for a template, a context and the store returns the
  html or throws. The literal bodies of the six generated templates and of the preview
  style sheet are parameters too.
\<close>

datatype template_kind = Hero | Collection | Product | Header | Footer | Generic

record env =
  sections :: "thrown + SectionData list"
  preset_files :: "string \<Rightarrow> StylePreset option"
  template_files :: "string \<Rightarrow> string option"
  engine :: "string \<Rightarrow> RenderContext \<Rightarrow> store \<Rightarrow> thrown + string"
  template_body :: "template_kind \<Rightarrow> string"
  preview_css :: "string \<Rightarrow> string"

definition loadSectionData :: "env \<Rightarrow> string \<Rightarrow> thrown + SectionData option" where
  "loadSectionData e sl =
     (case sections e of
        Inl error \<Rightarrow> Inr None
      | Inr secs \<Rightarrow> Inr (find (\<lambda>s. slug s = sl) secs))"

definition loadPresetData :: "env \<Rightarrow> string \<Rightarrow> StylePreset option" where
  "loadPresetData e sl = preset_files e sl"

definition loadSectionTemplate :: "env \<Rightarrow> string \<Rightarrow> string option" where
  "loadSectionTemplate e sl = template_files e sl"

definition kind_of_category :: "string \<Rightarrow> template_kind" where
  "kind_of_category cat =
     (if cat = ''hero'' then Hero
      else if cat = ''collection'' \<or> cat = ''featured-collection'' then Collection
      else if cat = ''product'' then Product
      else if cat = ''header'' then Header
      else if cat = ''footer'' then Footer
      else Generic)"

definition generateTemplateFromSchema :: "env \<Rightarrow> SectionData \<Rightarrow> string" where
  "generateTemplateFromSchema e sec =
     (let parts = [''<section class='' @ [CHR 0x22] @ ''section section--'' @ slug sec @ [CHR 0x22]
                     @ '' data-section-id='' @ [CHR 0x22] @ ''{{ section.id }}'' @ [CHR 0x22] @ ''>''];
          parts = parts @ [''  <div class='' @ [CHR 0x22] @ ''section__container container''
                     @ [CHR 0x22] @ ''>''];
          parts = parts @ [template_body e (kind_of_category (category sec))];
          parts = parts @ [''  </div>''];
          parts = parts @ [''</section>'']
      in join [CHR 0x0A] parts)"

definition generatePreviewCSS :: "env \<Rightarrow> SectionData \<Rightarrow> string" where
  "generatePreviewCSS e sec = preview_css e (name sec)"

text \<open>\<open>Object.assign(target, source)\<close>: the own properties of the source, in order.\<close>

definition object_assign :: "obj \<Rightarrow> obj \<Rightarrow> obj" where
  "object_assign target source = foldl (\<lambda>t (k, v). set_property t k v) target source"

text \<open>The message of a caught value, and the two inline error markers.\<close>

definition message_of :: "thrown \<Rightarrow> string" where
  "message_of error = (case error of Error m \<Rightarrow> m | NonError \<Rightarrow> ''Unknown render error'')"

definition error_div :: "string \<Rightarrow> string" where
  "error_div msg = ''<div class='' @ [CHR 0x22] @ ''error'' @ [CHR 0x22] @ ''>'' @ msg @ ''</div>''"

text \<open>
  The steps of \<open>renderSection\<close> between the load of the section and the call of the
  engine: the preset, the template (stored or generated), the mock context, and the
  custom settings laid over the settings of the section. The result is what the engine
  is called with.
\<close>

definition engine_input ::
  "env \<Rightarrow> SectionData \<Rightarrow> RenderOptions \<Rightarrow> store \<Rightarrow> string \<times> RenderContext \<times> store" where
  "engine_input e sectionData options \<sigma> =
     (let presetData = (case presetSlug options of
                          None \<Rightarrow> None
                        | Some p \<Rightarrow> if p \<noteq> [] then loadPresetData e p else None);
          template = (case loadSectionTemplate e (sectionSlug options) of
                        None \<Rightarrow> generateTemplateFromSchema e sectionData
                      | Some t \<Rightarrow> if t \<noteq> [] then t else generateTemplateFromSchema e sectionData);
          (context, \<sigma>') = generateMockDataFromSchema sectionData presetData \<sigma>;
          context = (case customSettings options of
                       None \<Rightarrow> context
                     | Some cs \<Rightarrow>
                         context\<lparr>section_context := (section_context context)
                           \<lparr>section_settings :=
                              object_assign (section_settings (section_context context)) cs\<rparr>\<rparr>)
      in (template, context, \<sigma>'))"

text \<open>The part of \<open>renderSection\<close> after a cache miss.\<close>

definition render_miss ::
  "env \<Rightarrow> RenderOptions \<Rightarrow> string \<Rightarrow> nat \<Rightarrow> world \<Rightarrow> (thrown + RenderResult) \<times> world" where
  "render_miss e options cacheKey startTime w =
     (case loadSectionData e (sectionSlug options) of
        Inl error \<Rightarrow> (Inl error, w)
      | Inr None \<Rightarrow>
          (Inr \<lparr>html = error_div (''Section not found: '' @ sectionSlug options),
                css = [],
                errors = [''Section not found: '' @ sectionSlug options],
                renderTimeMs = clock w - startTime,
                cached = False\<rparr>, w)
      | Inr (Some sectionData) \<Rightarrow>
          (case engine_input e sectionData options (heap w) of
             (template, context, \<sigma>) \<Rightarrow>
               (let w1 = w\<lparr>heap := \<sigma>\<rparr>;
                    (html1, errors1) =
                       (case engine e template context \<sigma> of
                          Inr h \<Rightarrow> (h, [])
                        | Inl error \<Rightarrow>
                            (let message = message_of error
                             in (error_div (''Render error: '' @ message), [message])));
                    css1 = generatePreviewCSS e sectionData;
                    renderTimeMs1 = clock w1 - startTime;
                    (stored, w2) =
                       (if \<not> skipCache options \<and> length errors1 = 0
                        then setCachedPreview cacheKey (sectionSlug options) (presetSlug options)
                               \<lparr>entry_html = html1, entry_css = Some css1,
                                entry_renderTimeMs = renderTimeMs1\<rparr> 60 w1
                        else (Inr (), w1))
                in case stored of
                     Inl error \<Rightarrow> (Inl error, w2)
                   | Inr u \<Rightarrow>
                       (Inr \<lparr>html = html1, css = css1, errors = errors1,
                             renderTimeMs = renderTimeMs1, cached = False\<rparr>, w2))))"

definition renderSection ::
  "env \<Rightarrow> RenderOptions \<Rightarrow> world \<Rightarrow> (thrown + RenderResult) \<times> world" where
  "renderSection e options w =
     (let startTime = clock w;
          cacheKey = request_cache_key (sectionSlug options) (presetSlug options)
                       (customSettings options);
          (lookup, w1) = (if \<not> skipCache options then getCachedPreview cacheKey w
                          else (Inr None, w))
      in case lookup of
           Inl error \<Rightarrow> (Inl error, w1)
         | Inr (Some hit) \<Rightarrow>
             (Inr \<lparr>html = entry_html hit,
                   css = (case entry_css hit of None \<Rightarrow> [] | Some c \<Rightarrow> c),
                   errors = [],
                   renderTimeMs = entry_renderTimeMs hit,
                   cached = True\<rparr>, w1)
         | Inr None \<Rightarrow> render_miss e options cacheKey startTime w1)"

subsection \<open>Batch rendering\<close>

text \<open>
  \<open>Promise.all\<close> over the renders of the first 20 slugs, each storing its result in the
  map under its slug. The model runs the renders one after the other in the order of the
  list; a render that threw would reject the whole batch.
\<close>

definition batch_options :: "string \<Rightarrow> string option \<Rightarrow> RenderOptions" where
  "batch_options sl p = \<lparr>sectionSlug = sl, presetSlug = p, customSettings = None, skipCache = False\<rparr>"




subsection \<open>A small library to run the pipeline on\<close>

text \<open>
  Four sections (the slideshow above and three sections without settings or blocks), no
  preset and no stored template; an engine that throws on every template and one that
  renders every template; an empty cache on 2026-11-03 at 10:00:00 UTC.
\<close>

definition plain_schema :: "string \<Rightarrow> SectionData" where
  "plain_schema sl =
     \<lparr>name = sl, slug = sl, description = None, category = ''hero'', settings = [],
      blocks = [], maxBlocks = 0, presets = []\<rparr>"

definition library_with :: "(string \<Rightarrow> RenderContext \<Rightarrow> store \<Rightarrow> thrown + string) \<Rightarrow> env" where
  "library_with eng =
     \<lparr>sections = Inr [slideshow_schema, plain_schema ''hero-banner'', plain_schema ''footer'',
                      plain_schema ''newsletter''],
      preset_files = (\<lambda>_. None), template_files = (\<lambda>_. None),
      engine = eng, template_body = (\<lambda>_. []), preview_css = (\<lambda>_. [])\<rparr>"

definition throwing_engine :: "string \<Rightarrow> RenderContext \<Rightarrow> store \<Rightarrow> thrown + string" where
  "throwing_engine t c \<sigma> = Inl (Error ''unexpected end of tag'')"

definition plain_engine :: "string \<Rightarrow> RenderContext \<Rightarrow> store \<Rightarrow> thrown + string" where
  "plain_engine t c \<sigma> = Inr ''<section></section>''"

definition cold_world :: world where
  "cold_world = \<lparr>rows = [], faults = [], clock = 1793700000000, heap = [[]]\<rparr>"

definition slideshow_request :: RenderOptions where
  "slideshow_request =
     \<lparr>sectionSlug = ''slideshow'', presetSlug = None, customSettings = None, skipCache = False\<rparr>"

text \<open>
  The cache after a render of the slideshow was stored at 10:00:00 with the default time
  to live of 60 minutes, and the same cache looked at later.
\<close>

definition warm_world :: world where
  "warm_world =
     snd (setCachedPreview ''slideshow'' ''slideshow'' None
            \<lparr>entry_html = ''<section></section>'', entry_css = Some [], entry_renderTimeMs = 3\<rparr>
            60 cold_world)"

definition hours_later :: "nat \<Rightarrow> world \<Rightarrow> world" where
  "hours_later n w = w\<lparr>clock := clock w + n * 3600000\<rparr>"



section \<open>Properties of the cache key\<close>

lemma digit_char_inj: "a < 36 \<Longrightarrow> b < 36 \<Longrightarrow> digit_char a = digit_char b \<Longrightarrow> a = b"
  unfolding digit_char_def
  by (rule nth_eq_iff_index_eq [THEN iffD1, of "''0123456789abcdefghijklmnopqrstuvwxyz''"]) simp_all

lemma to_radix_nonempty: "to_radix r n \<noteq> []"
  by (subst to_radix.simps) simp

lemma to_radix_inj:
  "2 \<le> r \<Longrightarrow> r \<le> 36 \<Longrightarrow> to_radix r m = to_radix r n \<Longrightarrow> m = n"
proof (induction r m arbitrary: n rule: to_radix.induct)
  case (1 r m)
  show ?case
  proof (cases "m < r")
    case True
    note mr = this
    show ?thesis
    proof (cases "n < r")
      case True
      with mr 1(2,3,4) have "digit_char m = digit_char n"
        by (simp add: to_radix.simps [of r m] to_radix.simps [of r n])
      with mr True 1(3) show ?thesis by (intro digit_char_inj) auto
    next
      case False
      with mr 1(2,4) have "[digit_char m] = to_radix r (n div r) @ [digit_char (n mod r)]"
        by (simp add: to_radix.simps [of r m] to_radix.simps [of r n])
      then show ?thesis using to_radix_nonempty [of r "n div r"] by simp
    qed
  next
    case False
    note mr = this
    show ?thesis
    proof (cases "n < r")
      case True
      with mr 1(2,4) have "to_radix r (m div r) @ [digit_char (m mod r)] = [digit_char n]"
        by (simp add: to_radix.simps [of r m] to_radix.simps [of r n])
      then show ?thesis using to_radix_nonempty [of r "m div r"] by simp
    next
      case False
      with mr 1(2,4) have eq: "to_radix r (m div r) = to_radix r (n div r)"
        and d: "digit_char (m mod r) = digit_char (n mod r)"
        by (simp_all add: to_radix.simps [of r m] to_radix.simps [of r n])
      from mr 1(2) have "\<not> (r < 2 \<or> m < r)" by simp
      from 1(1) [OF this 1(2) 1(3) eq] have q: "m div r = n div r" .
      have "m mod r < 36" "n mod r < 36" using 1(2,3)
        by (auto intro: less_le_trans [OF mod_less_divisor])
      with d have "m mod r = n mod r" by (rule digit_char_inj [rotated 2])
      with q show ?thesis by (metis div_mult_mod_eq)
    qed
  qed
qed

lemmas hash_eval = hash_string_def quote_json_string_def quote_char_def int_to_string_def
  to_radix.simps digit_char_def hash_step_def shl32_def to_int32_def hashSettings_def

lemma hashSettings_nonempty: "hashSettings s \<noteq> []"
  by (simp add: hashSettings_def to_radix_nonempty)

lemma hashSettings_eq_iff:
  "hashSettings a = hashSettings b \<longleftrightarrow>
   \<bar>hash_string (stringify (JObj a))\<bar> = \<bar>hash_string (stringify (JObj b))\<bar>"
proof
  assume "hashSettings a = hashSettings b"
  then have "nat \<bar>hash_string (stringify (JObj a))\<bar> = nat \<bar>hash_string (stringify (JObj b))\<bar>"
    unfolding hashSettings_def by (rule to_radix_inj [rotated 2]) simp_all
  then show "\<bar>hash_string (stringify (JObj a))\<bar> = \<bar>hash_string (stringify (JObj b))\<bar>"
    by simp
next
  assume "\<bar>hash_string (stringify (JObj a))\<bar> = \<bar>hash_string (stringify (JObj b))\<bar>"
  then show "hashSettings a = hashSettings b" by (simp add: hashSettings_def)
qed

lemma generateCacheKey_hash_cancel:
  "h1 \<noteq> [] \<Longrightarrow> h2 \<noteq> [] \<Longrightarrow>
   generateCacheKey sl pr (Some h1) = generateCacheKey sl pr (Some h2) \<longleftrightarrow> h1 = h2"
  by (cases pr) (auto simp: generateCacheKey_def push_if_truthy_def Let_def split: if_splits)

text \<open>
  C1 (as stated, fails). Two override objects with the same entries in a different order
  of insertion get different keys, and two objects that differ in a value get the same key.
\<close>

theorem cache_key_order_counterexample:
  "set [(''a'', JNum 1), (''b'', JNum 2)] = set [(''b'', JNum 2), (''a'', JNum 1)]
   \<and> request_cache_key ''hero'' None (Some [(''a'', JNum 1), (''b'', JNum 2)])
       \<noteq> request_cache_key ''hero'' None (Some [(''b'', JNum 2), (''a'', JNum 1)])
   \<and> JStr ''Aa'' \<noteq> JStr ''BB''
   \<and> request_cache_key ''hero'' None (Some [(''k'', JStr ''Aa'')])
       = request_cache_key ''hero'' None (Some [(''k'', JStr ''BB'')])"
proof -
  have a: "hashSettings [(''a'', JNum 1), (''b'', JNum 2)] = ''kz8hg0''"
    by (simp add: hash_eval)
  have b: "hashSettings [(''b'', JNum 2), (''a'', JNum 1)] = ''k2g9cg''"
    by (simp add: hash_eval)
  have c: "hashSettings [(''k'', JStr ''Aa'')] = ''6xdc7z''"
    by (simp add: hash_eval)
  have d: "hashSettings [(''k'', JStr ''BB'')] = ''6xdc7z''"
    by (simp add: hash_eval)
  have "set [(''a'', JNum 1), (''b'', JNum 2)] = set [(''b'', JNum 2), (''a'', JNum 1)]"
    by auto
  then show ?thesis
    by (simp add: request_cache_key_def generateCacheKey_def push_if_truthy_def a b c d)
qed

text \<open>
  C1 (amended). For a fixed slug and preset, the keys of two override objects are equal
  exactly when the absolute values of the 32-bit hashes of their JSON texts are equal:
  the key is a function of the text \<open>JSON.stringify\<close> produces (entries in the object's
  own order), and it changes exactly when that fingerprint changes.
\<close>

theorem cache_key_fingerprint:
  "request_cache_key sl pr (Some o1) = request_cache_key sl pr (Some o2) \<longleftrightarrow>
   \<bar>hash_string (stringify (JObj o1))\<bar> = \<bar>hash_string (stringify (JObj o2))\<bar>"
  by (simp add: request_cache_key_def generateCacheKey_hash_cancel hashSettings_nonempty
      hashSettings_eq_iff)

theorem cache_key_fingerprint_witness:
  "request_cache_key ''hero'' (Some ''dark'') (Some [(''k'', JStr ''Aa'')])
   = request_cache_key ''hero'' (Some ''dark'') (Some [(''k'', JStr ''BB'')])"
proof -
  have "hash_string (stringify (JObj [(''k'', JStr ''Aa'')]))
        = hash_string (stringify (JObj [(''k'', JStr ''BB'')]))"
    by (simp add: hash_eval)
  then show ?thesis
    using cache_key_fingerprint [of "''hero''" "Some ''dark''" "[(''k'', JStr ''Aa'')]"
        "[(''k'', JStr ''BB'')]"]
    by simp
qed

text \<open>
  C10. \<open>generateCacheKey\<close> is not injective: the parts are joined with a colon that is
  not escaped, and an empty preset slug or settings hash is dropped like an absent one.
  Two different render requests then address the same cache entry.
\<close>

theorem generateCacheKey_not_injective:
  "generateCacheKey ''a:b'' None None = generateCacheKey ''a'' (Some ''b'') None
   \<and> generateCacheKey s (Some []) h = generateCacheKey s None h
   \<and> generateCacheKey s p (Some []) = generateCacheKey s p None
   \<and> (\<exists>x y. x \<noteq> y
        \<and> (case x of (s1, p1, h1) \<Rightarrow> generateCacheKey s1 p1 h1)
          = (case y of (s2, p2, h2) \<Rightarrow> generateCacheKey s2 p2 h2))
   \<and> request_cache_key ''a:b'' None None = request_cache_key ''a'' (Some ''b'') None"
proof -
  have k: "generateCacheKey ''a:b'' None None = generateCacheKey ''a'' (Some ''b'') None"
    by (simp add: generateCacheKey_def push_if_truthy_def)
  have "(''a:b'', None :: string option, None :: string option) \<noteq> (''a'', Some ''b'', None)"
    by simp
  with k have "\<exists>x y :: string \<times> string option \<times> string option. x \<noteq> y
        \<and> (case x of (s1, p1, h1) \<Rightarrow> generateCacheKey s1 p1 h1)
          = (case y of (s2, p2, h2) \<Rightarrow> generateCacheKey s2 p2 h2)"
    by (intro exI [of _ "(''a:b'', None, None)"] exI [of _ "(''a'', Some ''b'', None)"]) simp
  with k show ?thesis
    by (simp add: request_cache_key_def generateCacheKey_def push_if_truthy_def)
qed

section \<open>Properties of the filters\<close>















section \<open>Properties of the mock context generator\<close>

lemma snd_sample_blocks_map_Cons:
  "snd (sample_blocks_map (bt # bts) i \<sigma>) =
   snd (sample_blocks_map bts (i + 1)
     (\<sigma> @ [case block_settings bt of None \<Rightarrow> [] | Some sts \<Rightarrow> assign_defaults sts []]))"
  by (simp add: alloc_def Let_def split: prod.splits)

lemma sample_blocks_map_appends:
  "\<exists>new. snd (sample_blocks_map bts i \<sigma>) = \<sigma> @ new"
proof (induction bts arbitrary: i \<sigma>)
  case Nil
  then show ?case by simp
next
  case (Cons bt bts)
  obtain new where "snd (sample_blocks_map bts (i + 1)
      (\<sigma> @ [case block_settings bt of None \<Rightarrow> [] | Some sts \<Rightarrow> assign_defaults sts []])) =
      (\<sigma> @ [case block_settings bt of None \<Rightarrow> [] | Some sts \<Rightarrow> assign_defaults sts []]) @ new"
    using Cons.IH by blast
  then show ?case
    by (simp only: snd_sample_blocks_map_Cons append_assoc) blast
qed

text \<open>
  The branch that builds sample blocks from the block types writes into new objects only:
  every object the store held before the call is as it was.
\<close>

lemma sample_blocks_map_unchanged: "unchanged \<sigma> (snd (sample_blocks_map bts i \<sigma>))"
  using sample_blocks_map_appends [of bts i \<sigma>] by (auto simp: unchanged_def)

lemma generateMockBlocks_sample_unchanged:
  "prs = [] \<or> preset_blocks (hd prs) = None \<Longrightarrow>
   unchanged \<sigma> (snd (generateMockBlocks bts prs \<sigma>))"
  by (cases prs) (auto simp: generateMockBlocks_def sample_blocks_map_unchanged)

text \<open>
  C2 (the code departs from the claim). The claim says that \<open>generateMockDataFromSchema\<close>
  mutates none of its inputs, the settings objects of the blocks of the first preset
  included. On the slideshow schema, whose preset block has an empty settings object,
  the call writes the default of the setting \<open>title\<close> into that object: the store after
  the call differs from the store before it at the address the schema holds.
\<close>

theorem generateMockDataFromSchema_mutates_preset_block:
  "load [[]] 0 = []
   \<and> load (snd (generateMockDataFromSchema slideshow_schema None [[]])) 0
       = [(''title'', JStr ''Sample text'')]
   \<and> \<not> unchanged [[]] (snd (generateMockDataFromSchema slideshow_schema None [[]]))"
proof -
  have "snd (generateMockDataFromSchema slideshow_schema None [[]])
        = [[(''title'', JStr ''Sample text'')]]"
    by (simp add: slideshow_schema_def generateMockDataFromSchema_def generateMockBlocks_def
        load_def has_property_def object_prototype_keys_def getDefaultValue_def typeDefaults_def)
  then show ?thesis by (simp add: load_def unchanged_def)
qed

section \<open>The cache operations and a render after a miss\<close>

lemma d1_call_world: "snd (d1_call w) = w\<lparr>faults := tl (faults w)\<rparr>"
  by (cases "faults w") (simp_all add: d1_call_def)

lemma d1_call_cases:
  obtains (ok) "d1_call w = (None, w\<lparr>faults := tl (faults w)\<rparr>)"
  | (fail) e where "d1_call w = (Some e, w\<lparr>faults := tl (faults w)\<rparr>)"
  using d1_call_world [of w] by (cases "d1_call w") (metis not_None_eq snd_conv)

lemma getCachedPreview_world:
  "snd (getCachedPreview k w) = w\<lparr>faults := tl (faults w)\<rparr>"
  by (cases w rule: d1_call_cases)
     (simp_all add: getCachedPreview_def select_preview_def split: option.splits)

lemma getCachedPreview_returns: "\<exists>r. fst (getCachedPreview k w) = Inr r"
  by (cases w rule: d1_call_cases)
     (simp_all add: getCachedPreview_def select_preview_def split: option.splits)

lemma setCachedPreview_returns: "fst (setCachedPreview k s p en ttl w) = Inr ()"
  by (cases w rule: d1_call_cases)
     (simp_all add: setCachedPreview_def insert_or_replace_def Let_def)


lemma setCachedPreview_rows:
  "rows (snd (setCachedPreview k s p en ttl w)) = rows w
   \<or> (\<exists>row. cache_key row = k
        \<and> rows (snd (setCachedPreview k s p en ttl w))
            = filter (\<lambda>r. cache_key r \<noteq> k) (rows w) @ [row])"
  by (cases w rule: d1_call_cases)
     (simp_all add: setCachedPreview_def insert_or_replace_def Let_def)

lemma loadSectionData_returns: "\<exists>r. loadSectionData e sl = Inr r"
  by (simp add: loadSectionData_def split: sum.splits)

lemma render_miss_not_found:
  "loadSectionData e (sectionSlug opts) = Inr None \<Longrightarrow>
   render_miss e opts k t w =
     (Inr \<lparr>html = error_div (''Section not found: '' @ sectionSlug opts), css = [],
           errors = [''Section not found: '' @ sectionSlug opts],
           renderTimeMs = clock w - t, cached = False\<rparr>, w)"
  by (simp add: render_miss_def)

lemma render_miss_engine_throws:
  "loadSectionData e (sectionSlug opts) = Inr (Some sd) \<Longrightarrow>
   engine_input e sd opts (heap w) = (tm, cx, \<sigma>) \<Longrightarrow>
   engine e tm cx \<sigma> = Inl err \<Longrightarrow>
   render_miss e opts k t w =
     (Inr \<lparr>html = error_div (''Render error: '' @ message_of err),
           css = generatePreviewCSS e sd, errors = [message_of err],
           renderTimeMs = clock w - t, cached = False\<rparr>, w\<lparr>heap := \<sigma>\<rparr>)"
  by (simp add: render_miss_def Let_def)

lemma render_miss_engine_ok:
  "loadSectionData e (sectionSlug opts) = Inr (Some sd) \<Longrightarrow>
   engine_input e sd opts (heap w) = (tm, cx, \<sigma>) \<Longrightarrow>
   engine e tm cx \<sigma> = Inr h \<Longrightarrow>
   render_miss e opts k t w =
     (Inr \<lparr>html = h, css = generatePreviewCSS e sd, errors = [],
           renderTimeMs = clock w - t, cached = False\<rparr>,
      if skipCache opts then w\<lparr>heap := \<sigma>\<rparr>
      else snd (setCachedPreview k (sectionSlug opts) (presetSlug opts)
                 \<lparr>entry_html = h, entry_css = Some (generatePreviewCSS e sd),
                  entry_renderTimeMs = clock w - t\<rparr> 60 (w\<lparr>heap := \<sigma>\<rparr>)))"
proof -
  assume a: "loadSectionData e (sectionSlug opts) = Inr (Some sd)"
    "engine_input e sd opts (heap w) = (tm, cx, \<sigma>)" "engine e tm cx \<sigma> = Inr h"
  obtain x w2 where sc: "setCachedPreview k (sectionSlug opts) (presetSlug opts)
      \<lparr>entry_html = h, entry_css = Some (generatePreviewCSS e sd),
       entry_renderTimeMs = clock w - t\<rparr> 60 (w\<lparr>heap := \<sigma>\<rparr>) = (x, w2)"
    by (cases "setCachedPreview k (sectionSlug opts) (presetSlug opts)
      \<lparr>entry_html = h, entry_css = Some (generatePreviewCSS e sd),
       entry_renderTimeMs = clock w - t\<rparr> 60 (w\<lparr>heap := \<sigma>\<rparr>)") auto
  have "x = Inr ()"
    using setCachedPreview_returns [of k "sectionSlug opts" "presetSlug opts"
        "\<lparr>entry_html = h, entry_css = Some (generatePreviewCSS e sd),
          entry_renderTimeMs = clock w - t\<rparr>" 60 "w\<lparr>heap := \<sigma>\<rparr>"] sc
    by simp
  with a sc show ?thesis
    by (simp add: render_miss_def Let_def)
qed

text \<open>The three outcomes of a render after a miss.\<close>

lemma render_miss_cases:
  obtains
    (not_found) "loadSectionData (e :: env) (sectionSlug (opts :: RenderOptions)) = Inr None"
  | (throws) sd tm cx \<sigma> err where "loadSectionData e (sectionSlug opts) = Inr (Some sd)"
      "engine_input e sd opts (heap (w :: world)) = (tm, cx, \<sigma>)" "engine e tm cx \<sigma> = Inl err"
  | (ok) sd tm cx \<sigma> h where "loadSectionData e (sectionSlug opts) = Inr (Some sd)"
      "engine_input e sd opts (heap w) = (tm, cx, \<sigma>)" "engine e tm cx \<sigma> = Inr h"
proof -
  obtain r where r: "loadSectionData e (sectionSlug opts) = Inr r"
    using loadSectionData_returns by blast
  show thesis
  proof (cases r)
    case None
    with r show thesis by (intro not_found) simp
  next
    case (Some sd)
    obtain tm cx \<sigma> where ei: "engine_input e sd opts (heap w) = (tm, cx, \<sigma>)"
      by (cases "engine_input e sd opts (heap w)") auto
    show thesis
    proof (cases "engine e tm cx \<sigma>")
      case (Inl err)
      with r Some ei show thesis by (intro throws) simp_all
    next
      case (Inr h)
      with r Some ei show thesis by (intro ok) simp_all
    qed
  qed
qed

lemma render_miss_returns: "\<exists>r. fst (render_miss e opts k t w) = Inr r"
proof (cases rule: render_miss_cases [where e = e and opts = opts and w = w])
  case not_found
  then show ?thesis by (simp add: render_miss_not_found)
next
  case (throws sd tm cx \<sigma> err)
  then show ?thesis by (simp add: render_miss_engine_throws)
next
  case (ok sd tm cx \<sigma> h)
  then show ?thesis by (simp add: render_miss_engine_ok)
qed

text \<open>The rows of the table change only when a render without errors stores its result.\<close>

lemma render_miss_rows:
  "render_miss e opts k t w = (Inr r, w') \<Longrightarrow>
   rows w' = rows w
   \<or> (errors r = [] \<and> \<not> skipCache opts
       \<and> (\<exists>row. cache_key row = k
            \<and> rows w' = filter (\<lambda>x. cache_key x \<noteq> k) (rows w) @ [row]))"
proof (cases rule: render_miss_cases [where e = e and opts = opts and w = w])
  case not_found
  then show ?thesis if "render_miss e opts k t w = (Inr r, w')"
    using that by (auto simp: render_miss_not_found)
next
  case (throws sd tm cx \<sigma> err)
  then show ?thesis if "render_miss e opts k t w = (Inr r, w')"
    using that by (auto simp: render_miss_engine_throws)
next
  case (ok sd tm cx \<sigma> h)
  then show ?thesis if "render_miss e opts k t w = (Inr r, w')"
    using that
      setCachedPreview_rows [of k "sectionSlug opts" "presetSlug opts"
        "\<lparr>entry_html = h, entry_css = Some (generatePreviewCSS e sd),
          entry_renderTimeMs = clock w - t\<rparr>" 60 "w\<lparr>heap := \<sigma>\<rparr>"]
    by (auto simp: render_miss_engine_ok split: if_splits)
qed

subsection \<open>A whole render\<close>

lemma renderSection_skip:
  "skipCache opts \<Longrightarrow>
   renderSection e opts w =
     render_miss e opts
       (request_cache_key (sectionSlug opts) (presetSlug opts) (customSettings opts)) (clock w) w"
  by (simp add: renderSection_def)

lemma renderSection_lookup_miss:
  fixes w :: world
  assumes "\<not> skipCache opts"
    and "fst (getCachedPreview
          (request_cache_key (sectionSlug opts) (presetSlug opts) (customSettings opts)) w) = Inr None"
  shows "renderSection e opts w =
     render_miss e opts
       (request_cache_key (sectionSlug opts) (presetSlug opts) (customSettings opts)) (clock w)
       (w\<lparr>faults := tl (faults w)\<rparr>)"
proof -
  let ?k = "request_cache_key (sectionSlug opts) (presetSlug opts) (customSettings opts)"
  have "getCachedPreview ?k w = (Inr None, w\<lparr>faults := tl (faults w)\<rparr>)"
    using assms(2) getCachedPreview_world [of ?k w]
    by (cases "getCachedPreview ?k w") simp
  with assms(1) show ?thesis by (simp add: renderSection_def)
qed

lemma renderSection_lookup_hit:
  fixes w :: world
  assumes "\<not> skipCache opts"
    and "fst (getCachedPreview
          (request_cache_key (sectionSlug opts) (presetSlug opts) (customSettings opts)) w)
         = Inr (Some hit)"
  shows "renderSection e opts w =
     (Inr \<lparr>html = entry_html hit, css = (case entry_css hit of None \<Rightarrow> [] | Some c \<Rightarrow> c),
           errors = [], renderTimeMs = entry_renderTimeMs hit, cached = True\<rparr>,
      w\<lparr>faults := tl (faults w)\<rparr>)"
proof -
  let ?k = "request_cache_key (sectionSlug opts) (presetSlug opts) (customSettings opts)"
  have "getCachedPreview ?k w = (Inr (Some hit), w\<lparr>faults := tl (faults w)\<rparr>)"
    using assms(2) getCachedPreview_world [of ?k w]
    by (cases "getCachedPreview ?k w") simp
  with assms(1) show ?thesis by (simp add: renderSection_def)
qed

text \<open>A render is a hit, or runs the part after a miss on the world the lookup left.\<close>

lemma renderSection_cases:
  fixes e :: env and opts :: RenderOptions and w :: world
  obtains
    (hit) hit :: CacheEntry where "\<not> skipCache opts"
      "renderSection e opts w =
         (Inr \<lparr>html = entry_html hit, css = (case entry_css hit of None \<Rightarrow> [] | Some c \<Rightarrow> c),
               errors = [], renderTimeMs = entry_renderTimeMs hit, cached = True\<rparr>,
          w\<lparr>faults := tl (faults w)\<rparr>)"
  | (miss) w1 where "rows w1 = rows w" "heap w1 = heap w" "clock w1 = clock w"
      "renderSection e opts w =
         render_miss e opts
           (request_cache_key (sectionSlug opts) (presetSlug opts) (customSettings opts))
           (clock w) w1"
proof (cases "skipCache opts")
  case True
  then show thesis using renderSection_skip [of opts e w] by (intro miss [of w]) simp_all
next
  case False
  let ?k = "request_cache_key (sectionSlug opts) (presetSlug opts) (customSettings opts)"
  obtain r where r: "fst (getCachedPreview ?k w) = Inr r"
    using getCachedPreview_returns by blast
  show thesis
  proof (cases r)
    case None
    with False r show thesis
      using renderSection_lookup_miss [of opts w e]
      by (intro miss [of "w\<lparr>faults := tl (faults w)\<rparr>"]) simp_all
  next
    case (Some h)
    with False r show thesis
      using renderSection_lookup_hit [of opts w h e] by (intro hit [of h]) simp_all
  qed
qed

lemma renderSection_returns:
  fixes e :: env and opts :: RenderOptions and w :: world
  shows "\<exists>r w'. renderSection e opts w = (Inr r, w')"
proof (cases rule: renderSection_cases [where e = e and opts = opts and w = w])
  case (hit h)
  then show ?thesis by simp
next
  case (miss w1)
  then show ?thesis
    using render_miss_returns [of e opts
        "request_cache_key (sectionSlug opts) (presetSlug opts) (customSettings opts)" "clock w" w1]
    by (cases "render_miss e opts
        (request_cache_key (sectionSlug opts) (presetSlug opts) (customSettings opts)) (clock w) w1")
      auto
qed

lemma renderSection_rows:
  fixes e :: env and opts :: RenderOptions and w :: world
  assumes "renderSection e opts w = (Inr r, w')"
  shows "rows w' = rows w
   \<or> (errors r = [] \<and> \<not> skipCache opts
       \<and> (\<exists>row. cache_key row
                 = request_cache_key (sectionSlug opts) (presetSlug opts) (customSettings opts)
            \<and> rows w' = filter (\<lambda>x. cache_key x
                 \<noteq> request_cache_key (sectionSlug opts) (presetSlug opts) (customSettings opts))
                 (rows w) @ [row]))"
proof (cases rule: renderSection_cases [where e = e and opts = opts and w = w])
  case (hit h)
  with assms show ?thesis by auto
next
  case (miss w1)
  with assms show ?thesis
    using render_miss_rows [of e opts
        "request_cache_key (sectionSlug opts) (presetSlug opts) (customSettings opts)" "clock w" w1 r w']
    by simp
qed

lemma renderSection_engine_throws:
  fixes e :: env and opts :: RenderOptions and w :: world
  assumes miss: "skipCache opts \<or> fst (getCachedPreview
          (request_cache_key (sectionSlug opts) (presetSlug opts) (customSettings opts)) w) = Inr None"
    and found: "loadSectionData e (sectionSlug opts) = Inr (Some sd)"
    and input: "engine_input e sd opts (heap w) = (tm, cx, \<sigma>)"
    and throws: "engine e tm cx \<sigma> = Inl err"
  shows "\<exists>w'. renderSection e opts w =
           (Inr \<lparr>html = error_div (''Render error: '' @ message_of err),
                 css = generatePreviewCSS e sd, errors = [message_of err],
                 renderTimeMs = 0, cached = False\<rparr>, w')
         \<and> rows w' = rows w"
proof (cases "skipCache opts")
  case True
  then show ?thesis
    using render_miss_engine_throws [OF found input throws]
    by (simp add: renderSection_skip)
next
  case False
  with miss have m: "fst (getCachedPreview
          (request_cache_key (sectionSlug opts) (presetSlug opts) (customSettings opts)) w) = Inr None"
    by simp
  have "engine_input e sd opts (heap (w\<lparr>faults := tl (faults w)\<rparr>)) = (tm, cx, \<sigma>)"
    using input by simp
  from render_miss_engine_throws [OF found this throws] show ?thesis
    by (simp add: renderSection_lookup_miss [OF False m])
qed

lemma lookup_in_empty_table:
  "rows w = [] \<Longrightarrow> fst (getCachedPreview k w) = Inr None"
  by (cases rule: d1_call_cases [where w = w])
     (simp_all add: getCachedPreview_def select_preview_def)

lemma load_slideshow:
  "loadSectionData (library_with eng) ''slideshow'' = Inr (Some slideshow_schema)"
  by (simp add: loadSectionData_def library_with_def slideshow_schema_def)

lemma renderSection_not_found:
  fixes e :: env and opts :: RenderOptions and w :: world
  assumes miss: "skipCache opts \<or> fst (getCachedPreview
          (request_cache_key (sectionSlug opts) (presetSlug opts) (customSettings opts)) w) = Inr None"
    and missing: "loadSectionData e (sectionSlug opts) = Inr None"
  shows "\<exists>w'. renderSection e opts w =
           (Inr \<lparr>html = error_div (''Section not found: '' @ sectionSlug opts), css = [],
                 errors = [''Section not found: '' @ sectionSlug opts],
                 renderTimeMs = 0, cached = False\<rparr>, w')
         \<and> rows w' = rows w"
proof (cases "skipCache opts")
  case True
  then show ?thesis
    using render_miss_not_found [OF missing] by (simp add: renderSection_skip)
next
  case False
  with miss have m: "fst (getCachedPreview
          (request_cache_key (sectionSlug opts) (presetSlug opts) (customSettings opts)) w) = Inr None"
    by simp
  from render_miss_not_found [OF missing] show ?thesis
    by (simp add: renderSection_lookup_miss [OF False m])
qed

lemma renderSection_never_cached_after_fault:
  fixes e :: env and opts :: RenderOptions and w :: world
  assumes "faults w = Some err # fs"
  shows "\<exists>r w'. renderSection e opts w = (Inr r, w') \<and> \<not> cached r"
proof -
  let ?k = "request_cache_key (sectionSlug opts) (presetSlug opts) (customSettings opts)"
  have g: "fst (getCachedPreview ?k w) = Inr None"
    using assms by (simp add: getCachedPreview_def select_preview_def d1_call_def)
  obtain w1 where eq: "renderSection e opts w = render_miss e opts ?k (clock w) w1"
    using renderSection_skip [of opts e w] renderSection_lookup_miss [OF _ g, of e]
    by (cases "skipCache opts") auto
  show ?thesis
  proof (cases rule: render_miss_cases [where e = e and opts = opts and w = w1])
    case not_found
    then show ?thesis by (simp add: eq render_miss_not_found)
  next
    case (throws sd tm cx \<sigma> err)
    then show ?thesis by (simp add: eq render_miss_engine_throws)
  next
    case (ok sd tm cx \<sigma> h)
    then show ?thesis by (simp add: eq render_miss_engine_ok)
  qed
qed

text \<open>
  The other direction: a render without errors, with the cache in use and the database
  answering, stores its html under the key of the request.
\<close>

lemma render_success_is_stored:
  fixes e :: env and opts :: RenderOptions and w :: world
  assumes use: "\<not> skipCache opts"
    and miss: "fst (getCachedPreview
          (request_cache_key (sectionSlug opts) (presetSlug opts) (customSettings opts)) w) = Inr None"
    and found: "loadSectionData e (sectionSlug opts) = Inr (Some sd)"
    and input: "engine_input e sd opts (heap w) = (tm, cx, \<sigma>)"
    and renders: "engine e tm cx \<sigma> = Inr h"
    and up: "faults w = []"
  shows "\<exists>r w' row. renderSection e opts w = (Inr r, w') \<and> html r = h \<and> errors r = []
           \<and> \<not> cached r
           \<and> cache_key row
               = request_cache_key (sectionSlug opts) (presetSlug opts) (customSettings opts)
           \<and> row_html row = h
           \<and> rows w' = filter (\<lambda>x. cache_key x
               \<noteq> request_cache_key (sectionSlug opts) (presetSlug opts) (customSettings opts))
               (rows w) @ [row]"
proof -
  let ?k = "request_cache_key (sectionSlug opts) (presetSlug opts) (customSettings opts)"
  let ?w1 = "w\<lparr>faults := tl (faults w)\<rparr>"
  have i1: "engine_input e sd opts (heap ?w1) = (tm, cx, \<sigma>)" using input by simp
  have "renderSection e opts w = render_miss e opts ?k (clock w) ?w1"
    by (rule renderSection_lookup_miss [OF use miss])
  also have "\<dots> = (Inr \<lparr>html = h, css = generatePreviewCSS e sd, errors = [],
           renderTimeMs = clock ?w1 - clock w, cached = False\<rparr>,
      snd (setCachedPreview ?k (sectionSlug opts) (presetSlug opts)
             \<lparr>entry_html = h, entry_css = Some (generatePreviewCSS e sd),
              entry_renderTimeMs = clock ?w1 - clock w\<rparr> 60 (?w1\<lparr>heap := \<sigma>\<rparr>)))"
    using render_miss_engine_ok [OF found i1 renders, of ?k "clock w"] use by simp
  finally have rs: "renderSection e opts w = (Inr \<lparr>html = h, css = generatePreviewCSS e sd,
           errors = [], renderTimeMs = clock ?w1 - clock w, cached = False\<rparr>,
      snd (setCachedPreview ?k (sectionSlug opts) (presetSlug opts)
             \<lparr>entry_html = h, entry_css = Some (generatePreviewCSS e sd),
              entry_renderTimeMs = clock ?w1 - clock w\<rparr> 60 (?w1\<lparr>heap := \<sigma>\<rparr>)))" .
  have "\<exists>row. cache_key row = ?k \<and> row_html row = h
      \<and> rows (snd (setCachedPreview ?k (sectionSlug opts) (presetSlug opts)
             \<lparr>entry_html = h, entry_css = Some (generatePreviewCSS e sd),
              entry_renderTimeMs = clock ?w1 - clock w\<rparr> 60 (?w1\<lparr>heap := \<sigma>\<rparr>)))
        = filter (\<lambda>x. cache_key x \<noteq> ?k) (rows w) @ [row]"
    using up by (simp add: setCachedPreview_def insert_or_replace_def d1_call_def Let_def)
  with rs show ?thesis by auto
qed

section \<open>The time stamps of one morning\<close>

lemma days_20760: "civil_from_days 20760 = (2026, 11, 3)"
proof -
  have "civil_from_days 20760 = civil_of_era 5 9743" by (simp add: civil_from_days_def)
  also have "\<dots> = civil_of_year 5 9743 26" by (simp add: civil_of_era_def)
  also have "\<dots> = civil_of_month 5 26 247 8" by (simp add: civil_of_year_def)
  also have "\<dots> = (2026, 11, 3)" by (simp add: civil_of_month_def)
  finally show ?thesis .
qed

lemma days_20761: "civil_from_days 20761 = (2026, 11, 4)"
proof -
  have "civil_from_days 20761 = civil_of_era 5 9744" by (simp add: civil_from_days_def)
  also have "\<dots> = civil_of_year 5 9744 26" by (simp add: civil_of_era_def)
  also have "\<dots> = civil_of_month 5 26 248 8" by (simp add: civil_of_year_def)
  also have "\<dots> = (2026, 11, 4)" by (simp add: civil_of_month_def)
  finally show ?thesis .
qed

lemma radix_10_values: "to_radix 10 3 = ''3''" "to_radix 10 11 = ''11''" "to_radix 10 2026 = ''2026''"
  "to_radix 10 0 = ''0''" "to_radix 10 10 = ''10''" "to_radix 10 12 = ''12''" "to_radix 10 4 = ''4''"
  by (simp_all add: to_radix.simps digit_char_def)

lemma replicate_values: "replicate 2 c = [c, c]" "replicate 1 c = [c]" "replicate 3 c = [c, c, c]"
  by (simp_all add: numeral_2_eq_2 numeral_3_eq_3)

lemma pad_values: "pad 2 3 = ''03''" "pad 2 11 = ''11''" "pad 4 2026 = ''2026''" "pad 2 0 = ''00''"
  "pad 3 0 = ''000''" "pad 2 10 = ''10''" "pad 2 12 = ''12''" "pad 2 4 = ''04''"
  by (simp_all add: pad_def radix_10_values replicate_values)

lemma date_values: "date_text 1793700000000 = ''2026-11-03''"
  "date_text 1793703600000 = ''2026-11-03''"
  "date_text 1793707200000 = ''2026-11-03''"
  "date_text 1793750400000 = ''2026-11-04''"
  by (simp_all add: date_text_def days_20760 days_20761 pad_values)

lemma time_values: "time_text 1793700000000 = ''10:00:00''"
  "time_text 1793703600000 = ''11:00:00''"
  "time_text 1793707200000 = ''12:00:00''"
  "time_text 1793750400000 = ''00:00:00''"
  by (simp_all add: time_text_def pad_values)

lemma iso_values: "toISOString 1793700000000 = ''2026-11-03T10:00:00.000Z''"
  "toISOString 1793703600000 = ''2026-11-03T11:00:00.000Z''"
  by (simp_all add: toISOString_def date_values time_values pad_values)

lemma sqlite_datetime_values: "sqlite_datetime 1793707200000 = ''2026-11-03 12:00:00''"
  "sqlite_datetime 1793700000000 = ''2026-11-03 10:00:00''"
  "sqlite_datetime 1793750400000 = ''2026-11-04 00:00:00''"
  by (simp_all add: sqlite_datetime_def date_values time_values)

lemma warm_rows:
  "rows warm_world =
     [\<lparr>cache_key = ''slideshow'', section_slug = ''slideshow'', preset_slug = None,
       row_html = ''<section></section>'', row_css = Some [], render_time_ms = Some 3,
       created_at = ''2026-11-03T10:00:00.000Z'', expires_at = ''2026-11-03T11:00:00.000Z''\<rparr>]"
  by (simp add: warm_world_def setCachedPreview_def insert_or_replace_def d1_call_def
      cold_world_def Let_def iso_values)

lemma warm_other: "faults warm_world = [] \<and> clock warm_world = 1793700000000"
  by (simp add: warm_world_def setCachedPreview_def insert_or_replace_def d1_call_def
      cold_world_def Let_def)

section \<open>The batch loop\<close>










subsection \<open>A batch on a cache with a stale entry\<close>









section \<open>Properties of the cache and of a render\<close>

text \<open>
  C3. Every render returns a result, and when the result carries errors, or \<open>skipCache\<close>
  is set, the rows of the cache after the render are the rows before it: no entry is
  created for a render with a non-empty list of errors, be the cause a missing schema or
  an exception of the engine.
\<close>

theorem no_cache_entry_for_failed_render:
  fixes e :: env and options :: RenderOptions and w :: world
  shows "\<exists>r w'. renderSection e options w = (Inr r, w')
           \<and> (errors r \<noteq> [] \<or> skipCache options \<longrightarrow> rows w' = rows w)"
proof -
  obtain r w' where rs: "renderSection e options w = (Inr r, w')"
    using renderSection_returns by blast
  from renderSection_rows [OF rs] have "errors r \<noteq> [] \<or> skipCache options \<longrightarrow> rows w' = rows w"
    by auto
  with rs show ?thesis by blast
qed

theorem no_cache_entry_for_failed_render_witness:
  "(\<exists>r w'. renderSection (library_with throwing_engine) slideshow_request cold_world = (Inr r, w')
          \<and> errors r = [''unexpected end of tag''] \<and> rows w' = [])
   \<and> (\<exists>r w'. renderSection (library_with plain_engine) (batch_options ''missing-section'' None)
             warm_world = (Inr r, w')
          \<and> errors r = [''Section not found: missing-section''] \<and> rows w' = rows warm_world)"
proof (rule conjI)
  have miss: "skipCache (batch_options ''missing-section'' None) \<or> fst (getCachedPreview
      (request_cache_key (sectionSlug (batch_options ''missing-section'' None))
         (presetSlug (batch_options ''missing-section'' None))
         (customSettings (batch_options ''missing-section'' None))) warm_world) = Inr None"
    by (simp add: batch_options_def request_cache_key_def generateCacheKey_def push_if_truthy_def
        getCachedPreview_def select_preview_def d1_call_def warm_other warm_rows)
  have missing: "loadSectionData (library_with plain_engine)
      (sectionSlug (batch_options ''missing-section'' None)) = Inr None"
    by (simp add: batch_options_def loadSectionData_def library_with_def slideshow_schema_def
        plain_schema_def)
  from renderSection_not_found [OF miss missing]
  obtain w1 where eq: "renderSection (library_with plain_engine)
      (batch_options ''missing-section'' None) warm_world =
      (Inr \<lparr>html = error_div (''Section not found: ''
                @ sectionSlug (batch_options ''missing-section'' None)), css = [],
            errors = [''Section not found: '' @ sectionSlug (batch_options ''missing-section'' None)],
            renderTimeMs = 0, cached = False\<rparr>, w1)"
    by blast
  from no_cache_entry_for_failed_render [of "library_with plain_engine"
      "batch_options ''missing-section'' None" warm_world]
  obtain r w' where rs: "renderSection (library_with plain_engine)
      (batch_options ''missing-section'' None) warm_world = (Inr r, w')"
    and keep: "errors r \<noteq> [] \<or> skipCache (batch_options ''missing-section'' None)
      \<longrightarrow> rows w' = rows warm_world"
    by blast
  from eq rs have "errors r = [''Section not found: missing-section'']"
    by (auto simp: batch_options_def)
  with keep rs show "\<exists>r w'. renderSection (library_with plain_engine)
      (batch_options ''missing-section'' None) warm_world = (Inr r, w')
      \<and> errors r = [''Section not found: missing-section''] \<and> rows w' = rows warm_world"
    by simp
next
  obtain tm cx \<sigma> where input:
    "engine_input (library_with throwing_engine) slideshow_schema slideshow_request (heap cold_world)
       = (tm, cx, \<sigma>)"
    by (cases "engine_input (library_with throwing_engine) slideshow_schema slideshow_request
        (heap cold_world)") auto
  have miss: "skipCache slideshow_request \<or> fst (getCachedPreview
      (request_cache_key (sectionSlug slideshow_request) (presetSlug slideshow_request)
         (customSettings slideshow_request)) cold_world) = Inr None"
    by (simp add: lookup_in_empty_table cold_world_def)
  have found: "loadSectionData (library_with throwing_engine) (sectionSlug slideshow_request)
      = Inr (Some slideshow_schema)"
    by (simp add: load_slideshow slideshow_request_def)
  have throws: "engine (library_with throwing_engine) tm cx \<sigma> = Inl (Error ''unexpected end of tag'')"
    by (simp add: library_with_def throwing_engine_def)
  from renderSection_engine_throws [OF miss found input throws]
  obtain w1 where eq: "renderSection (library_with throwing_engine) slideshow_request cold_world =
      (Inr \<lparr>html = error_div (''Render error: '' @ message_of (Error ''unexpected end of tag'')),
            css = generatePreviewCSS (library_with throwing_engine) slideshow_schema,
            errors = [message_of (Error ''unexpected end of tag'')],
            renderTimeMs = 0, cached = False\<rparr>, w1)"
    by blast
  from no_cache_entry_for_failed_render [of "library_with throwing_engine" slideshow_request cold_world]
  obtain r w' where rs: "renderSection (library_with throwing_engine) slideshow_request cold_world
      = (Inr r, w')"
    and keep: "errors r \<noteq> [] \<or> skipCache slideshow_request \<longrightarrow> rows w' = rows cold_world"
    by blast
  from eq rs have "errors r = [''unexpected end of tag'']"
    by (simp add: message_of_def)
  with keep rs show "\<exists>r w'. renderSection (library_with throwing_engine) slideshow_request
      cold_world = (Inr r, w') \<and> errors r = [''unexpected end of tag''] \<and> rows w' = []"
    by (simp add: cold_world_def)
qed

text \<open>
  C4 (the code departs from the claim). The claim says that an entry whose \<open>expiresAt\<close>
  lies in the past is never returned. The entry stored at 10:00:00 expires at 11:00:00;
  at 12:00:00 of the same day \<open>getCachedPreview\<close> still returns it, because the stored
  text \<open>2026-11-03T11:00:00.000Z\<close> is compared as text with \<open>2026-11-03 12:00:00\<close> and
  the letter T is greater than the space. Only from the next day on is the entry absent.
\<close>

theorem expired_entry_is_returned:
  "expires_at (hd (rows warm_world)) = toISOString (clock warm_world + 60 * 60 * 1000)
   \<and> clock warm_world + 60 * 60 * 1000 < clock (hours_later 2 warm_world)
   \<and> fst (getCachedPreview ''slideshow'' (hours_later 2 warm_world))
       = Inr (Some \<lparr>entry_html = ''<section></section>'', entry_css = Some [],
                    entry_renderTimeMs = 3\<rparr>)
   \<and> fst (getCachedPreview ''slideshow'' (hours_later 14 warm_world)) = Inr None"
proof -
  have a: "text_less ''2026-11-03 12:00:00'' ''2026-11-03T11:00:00.000Z''" by simp
  have b: "\<not> text_less ''2026-11-04 00:00:00'' ''2026-11-03T11:00:00.000Z''" by simp
  have c2: "sqlite_datetime (clock (hours_later 2 warm_world)) = ''2026-11-03 12:00:00''"
    by (simp add: hours_later_def warm_other sqlite_datetime_values)
  have c14: "sqlite_datetime (clock (hours_later 14 warm_world)) = ''2026-11-04 00:00:00''"
    by (simp add: hours_later_def warm_other sqlite_datetime_values)
  have r2: "rows (hours_later 2 warm_world) = rows warm_world"
    and r14: "rows (hours_later 14 warm_world) = rows warm_world"
    and f2: "faults (hours_later 2 warm_world) = []"
    and f14: "faults (hours_later 14 warm_world) = []"
    by (simp_all add: hours_later_def warm_other)
  have "fst (getCachedPreview ''slideshow'' (hours_later 2 warm_world))
       = Inr (Some \<lparr>entry_html = ''<section></section>'', entry_css = Some [],
                    entry_renderTimeMs = 3\<rparr>)"
    by (simp add: getCachedPreview_def select_preview_def d1_call_def f2 r2 c2 warm_rows a)
  moreover have "fst (getCachedPreview ''slideshow'' (hours_later 14 warm_world)) = Inr None"
    by (simp add: getCachedPreview_def select_preview_def d1_call_def f14 r14 c14 warm_rows b)
  moreover have "expires_at (hd (rows warm_world)) = toISOString (clock warm_world + 60 * 60 * 1000)"
    by (simp add: warm_rows warm_other iso_values)
  moreover have "clock warm_world + 60 * 60 * 1000 < clock (hours_later 2 warm_world)"
    by (simp add: hours_later_def warm_other)
  ultimately show ?thesis by simp
qed



text \<open>
  C6. When the call to the database fails, \<open>getCachedPreview\<close> returns absent,
  \<open>setCachedPreview\<close> returns normally, the two invalidations return 0, none of them
  throws, and a render whose lookup failed returns an uncached result. Whatever the
  failures of the database, a render returns a result.
\<close>

theorem cache_failures_are_swallowed:
  fixes e :: env and options :: RenderOptions and w :: world
  shows "(faults w = Some error # fs \<longrightarrow>
            getCachedPreview k w = (Inr None, w\<lparr>faults := fs\<rparr>)
          \<and> setCachedPreview k sl p entry ttl w = (Inr (), w\<lparr>faults := fs\<rparr>)
          \<and> invalidateSectionCache sl w = (Inr 0, w\<lparr>faults := fs\<rparr>)
          \<and> invalidatePresetCache q w = (Inr 0, w\<lparr>faults := fs\<rparr>)
          \<and> (\<exists>r w'. renderSection e options w = (Inr r, w') \<and> \<not> cached r))
         \<and> (\<exists>r w'. renderSection e options w = (Inr r, w'))"
proof (intro conjI impI)
  assume f: "faults w = Some error # fs"
  then show "getCachedPreview k w = (Inr None, w\<lparr>faults := fs\<rparr>)"
    by (simp add: getCachedPreview_def select_preview_def d1_call_def)
  from f show "setCachedPreview k sl p entry ttl w = (Inr (), w\<lparr>faults := fs\<rparr>)"
    by (simp add: setCachedPreview_def insert_or_replace_def d1_call_def Let_def)
  from f show "invalidateSectionCache sl w = (Inr 0, w\<lparr>faults := fs\<rparr>)"
    by (simp add: invalidateSectionCache_def delete_where_def d1_call_def)
  from f show "invalidatePresetCache q w = (Inr 0, w\<lparr>faults := fs\<rparr>)"
    by (simp add: invalidatePresetCache_def delete_where_def d1_call_def)
  from f show "\<exists>r w'. renderSection e options w = (Inr r, w') \<and> \<not> cached r"
    by (rule renderSection_never_cached_after_fault)
next
  show "\<exists>r w'. renderSection e options w = (Inr r, w')"
    by (rule renderSection_returns)
qed

theorem cache_failures_are_swallowed_witness:
  "getCachedPreview ''slideshow'' (warm_world\<lparr>faults := [Some (Error ''D1_ERROR'')]\<rparr>)
     = (Inr None, warm_world\<lparr>faults := []\<rparr>)
   \<and> fst (setCachedPreview ''slideshow'' ''slideshow'' None
            \<lparr>entry_html = ''<p></p>'', entry_css = None, entry_renderTimeMs = 1\<rparr> 60
            (warm_world\<lparr>faults := [Some (Error ''D1_ERROR'')]\<rparr>)) = Inr ()
   \<and> fst (invalidateSectionCache ''slideshow'' (warm_world\<lparr>faults := [Some (Error ''D1_ERROR'')]\<rparr>))
       = Inr 0
   \<and> fst (invalidatePresetCache ''dark'' (warm_world\<lparr>faults := [Some (Error ''D1_ERROR'')]\<rparr>))
       = Inr 0
   \<and> (\<exists>r w'. renderSection (library_with plain_engine) slideshow_request
                 (warm_world\<lparr>faults := [Some (Error ''D1_ERROR'')]\<rparr>) = (Inr r, w')
          \<and> \<not> cached r)"
  using cache_failures_are_swallowed [of "warm_world\<lparr>faults := [Some (Error ''D1_ERROR'')]\<rparr>"
      "Error ''D1_ERROR''" "[]" "''slideshow''" "''slideshow''" None
      "\<lparr>entry_html = ''<p></p>'', entry_css = None, entry_renderTimeMs = 1\<rparr>" 60 "''dark''"
      "library_with plain_engine" slideshow_request]
  by simp

section \<open>Properties of the batch\<close>




end
